theory Spec2Isabelle
  imports Main "HOL-Library.Word" "HOL-Library.Multiset"
begin

section \<open>The Yoga bridge of gpui (crates/gpui/yoga\_bridge/YogaBridge.cpp)\<close>

text \<open>
  The bridge exposes nodes of the Yoga flexbox library to Rust as integer handles. It
  translates the shared style struct into calls of Yoga's style setters, forwards the
  tree operations, and keeps a \<open>MeasureContext\<close> per measured node whose id is handed
  back to Rust on measuring (\<open>yoga_measure\<close>) and on release (\<open>yoga_drop_measure\<close>).

  The bridge never computes with a \<open>float\<close>: it stores and passes them on. A float is
  modelled by its 32 bits.
\<close>

subsection \<open>Shared types (gpui/src/yoga/ffi.rs.h)\<close>

type_synonym f32 = "32 word"

definition YGUndefined :: f32 where
  \<comment> \<open>Yoga's \<open>YGUndefined\<close>: a quiet NaN.\<close>
  "YGUndefined = 0x7FC00000"

text \<open>
  The header generated from the Rust side is not among the sources. The shared types
  below are modelled from the spec (section 3, Value, EdgeSet, Style, Layout,
  AvailableSize) and from the fields and enumerators YogaBridge.cpp reads.
\<close>

datatype YogaValueUnit =
  YogaValueUnit_Point | YogaValueUnit_Percent | YogaValueUnit_Auto | YogaValueUnit_Undefined

datatype YogaValue = YogaValue (v_value: f32) (v_unit: YogaValueUnit)

datatype YogaDisplay = YogaDisplay_Flex | YogaDisplay_None
datatype YogaPositionType = YogaPositionType_Relative | YogaPositionType_Absolute
datatype YogaOverflow = YogaOverflow_Visible | YogaOverflow_Hidden | YogaOverflow_Scroll
datatype YogaFlexDirection =
  YogaFlexDirection_Row | YogaFlexDirection_RowReverse
  | YogaFlexDirection_Column | YogaFlexDirection_ColumnReverse
datatype YogaWrap = YogaWrap_NoWrap | YogaWrap_Wrap | YogaWrap_WrapReverse
datatype YogaAlign =
  YogaAlign_Auto | YogaAlign_FlexStart | YogaAlign_Center | YogaAlign_FlexEnd
  | YogaAlign_Stretch | YogaAlign_Baseline | YogaAlign_SpaceBetween | YogaAlign_SpaceAround
datatype YogaJustify =
  YogaJustify_FlexStart | YogaJustify_Center | YogaJustify_FlexEnd
  | YogaJustify_SpaceBetween | YogaJustify_SpaceAround | YogaJustify_SpaceEvenly

record YogaEdges =
  left :: YogaValue
  top' :: YogaValue
  right :: YogaValue
  bottom :: YogaValue

record YogaSizeValue =
  width :: YogaValue
  height :: YogaValue

record YogaStyle =
  display :: YogaDisplay
  position_type :: YogaPositionType
  overflow :: YogaOverflow
  flex_direction :: YogaFlexDirection
  flex_wrap :: YogaWrap
  justify_content :: YogaJustify
  align_items :: YogaAlign
  align_content :: YogaAlign
  align_self :: YogaAlign
  margin :: YogaEdges
  padding :: YogaEdges
  border :: YogaEdges
  inset :: YogaEdges
  size' :: YogaSizeValue
  min_size :: YogaSizeValue
  max_size :: YogaSizeValue
  has_flex_basis :: bool
  flex_basis :: YogaValue
  has_flex_grow :: bool
  flex_grow :: f32
  has_flex_shrink :: bool
  flex_shrink :: f32
  has_aspect_ratio :: bool
  aspect_ratio :: f32
  gap :: YogaSizeValue

datatype YogaAvailableDimensionKind =
  YogaAvailableDimensionKind_Definite | YogaAvailableDimensionKind_Unconstrained

datatype YogaAvailableDimension =
  YogaAvailableDimension (d_kind: YogaAvailableDimensionKind) (d_value: f32)

datatype YogaAvailableSize =
  YogaAvailableSize (a_width: YogaAvailableDimension) (a_height: YogaAvailableDimension)

datatype YogaLayout = YogaLayout f32 f32 f32 f32

datatype YogaSize = YogaSize (s_width: f32) (s_height: f32)

datatype YogaMeasureMode = YogaMeasureMode (mode_number: nat)
  \<comment> \<open>A value of the shared enum, by its number. The names of its enumerators are in the
      header that is not among the sources; the bridge never uses them.\<close>

datatype YogaMeasureInput = YogaMeasureInput f32 YogaMeasureMode

datatype YogaNodeHandle = YogaNodeHandle (raw: "64 word")

subsection \<open>Yoga's public types (yoga/Yoga.h)\<close>

datatype YGUnit = YGUnitUndefined | YGUnitPoint | YGUnitPercent | YGUnitAuto
datatype YGValue = YGValue (yg_value: f32) (yg_unit: YGUnit)
datatype YGDisplay = YGDisplayFlex | YGDisplayNone
datatype YGPositionType = YGPositionTypeRelative | YGPositionTypeAbsolute
datatype YGOverflow = YGOverflowVisible | YGOverflowHidden | YGOverflowScroll
datatype YGFlexDirection =
  YGFlexDirectionColumn | YGFlexDirectionColumnReverse
  | YGFlexDirectionRow | YGFlexDirectionRowReverse
datatype YGWrap = YGWrapNoWrap | YGWrapWrap | YGWrapWrapReverse
datatype YGAlign =
  YGAlignAuto | YGAlignFlexStart | YGAlignCenter | YGAlignFlexEnd | YGAlignStretch
  | YGAlignBaseline | YGAlignSpaceBetween | YGAlignSpaceAround
datatype YGJustify =
  YGJustifyFlexStart | YGJustifyCenter | YGJustifyFlexEnd
  | YGJustifySpaceBetween | YGJustifySpaceAround | YGJustifySpaceEvenly
datatype YGEdge =
  YGEdgeLeft | YGEdgeTop | YGEdgeRight | YGEdgeBottom | YGEdgeStart | YGEdgeEnd
  | YGEdgeHorizontal | YGEdgeVertical | YGEdgeAll
datatype YGGutter = YGGutterColumn | YGGutterRow | YGGutterAll
datatype YGMeasureMode = YGMeasureModeUndefined | YGMeasureModeExactly | YGMeasureModeAtMost
datatype YGDirection = YGDirectionInherit | YGDirectionLTR | YGDirectionRTL
datatype YGSize = YGSize f32 f32

type_synonym YGNodeRef = "64 word"

abbreviation (input) nullptr :: YGNodeRef where
  "nullptr \<equiv> 0"

subsection \<open>Handles and enum conversions\<close>

definition from_handle :: "YogaNodeHandle \<Rightarrow> YGNodeRef" where
  "from_handle handle = raw handle"

definition to_handle :: "YGNodeRef \<Rightarrow> YogaNodeHandle" where
  "to_handle node = YogaNodeHandle node"

fun to_yg_value :: "YogaValue \<Rightarrow> YGValue" where
  "to_yg_value (YogaValue v YogaValueUnit_Point) = YGValue v YGUnitPoint"
| "to_yg_value (YogaValue v YogaValueUnit_Percent) = YGValue v YGUnitPercent"
| "to_yg_value (YogaValue v YogaValueUnit_Auto) = YGValue 0 YGUnitAuto"
| "to_yg_value (YogaValue v YogaValueUnit_Undefined) = YGValue YGUndefined YGUnitUndefined"

fun to_yg_display :: "YogaDisplay \<Rightarrow> YGDisplay" where
  "to_yg_display YogaDisplay_None = YGDisplayNone"
| "to_yg_display YogaDisplay_Flex = YGDisplayFlex"

fun to_yg_position_type :: "YogaPositionType \<Rightarrow> YGPositionType" where
  "to_yg_position_type YogaPositionType_Absolute = YGPositionTypeAbsolute"
| "to_yg_position_type YogaPositionType_Relative = YGPositionTypeRelative"

fun to_yg_overflow :: "YogaOverflow \<Rightarrow> YGOverflow" where
  "to_yg_overflow YogaOverflow_Hidden = YGOverflowHidden"
| "to_yg_overflow YogaOverflow_Scroll = YGOverflowScroll"
| "to_yg_overflow YogaOverflow_Visible = YGOverflowVisible"

fun to_yg_flex_direction :: "YogaFlexDirection \<Rightarrow> YGFlexDirection" where
  "to_yg_flex_direction YogaFlexDirection_ColumnReverse = YGFlexDirectionColumnReverse"
| "to_yg_flex_direction YogaFlexDirection_Row = YGFlexDirectionRow"
| "to_yg_flex_direction YogaFlexDirection_RowReverse = YGFlexDirectionRowReverse"
| "to_yg_flex_direction YogaFlexDirection_Column = YGFlexDirectionColumn"

fun to_yg_wrap :: "YogaWrap \<Rightarrow> YGWrap" where
  "to_yg_wrap YogaWrap_Wrap = YGWrapWrap"
| "to_yg_wrap YogaWrap_WrapReverse = YGWrapWrapReverse"
| "to_yg_wrap YogaWrap_NoWrap = YGWrapNoWrap"

fun to_yg_align :: "YogaAlign \<Rightarrow> YGAlign" where
  "to_yg_align YogaAlign_Auto = YGAlignAuto"
| "to_yg_align YogaAlign_FlexStart = YGAlignFlexStart"
| "to_yg_align YogaAlign_Center = YGAlignCenter"
| "to_yg_align YogaAlign_FlexEnd = YGAlignFlexEnd"
| "to_yg_align YogaAlign_Stretch = YGAlignStretch"
| "to_yg_align YogaAlign_Baseline = YGAlignBaseline"
| "to_yg_align YogaAlign_SpaceBetween = YGAlignSpaceBetween"
| "to_yg_align YogaAlign_SpaceAround = YGAlignSpaceAround"

fun to_yg_justify :: "YogaJustify \<Rightarrow> YGJustify" where
  "to_yg_justify YogaJustify_Center = YGJustifyCenter"
| "to_yg_justify YogaJustify_FlexEnd = YGJustifyFlexEnd"
| "to_yg_justify YogaJustify_SpaceBetween = YGJustifySpaceBetween"
| "to_yg_justify YogaJustify_SpaceAround = YGJustifySpaceAround"
| "to_yg_justify YogaJustify_SpaceEvenly = YGJustifySpaceEvenly"
| "to_yg_justify YogaJustify_FlexStart = YGJustifyFlexStart"

definition value_or_undefined :: "YogaAvailableDimension \<Rightarrow> f32" where
  "value_or_undefined dimension =
     (if d_kind dimension = YogaAvailableDimensionKind_Definite
      then d_value dimension else YGUndefined)"

subsection \<open>The style of a Yoga node\<close>

text \<open>
  Modelled from the spec: the style setters belong to the Yoga library (yoga/Yoga.h), which
  is not among the sources. A node's style (spec section 3, Node: "owns a Style") is the
  record of what the setters last wrote: each setter overwrites the property, edge or
  gutter it names and nothing else.
\<close>

record YGStyle =
  yg_display :: YGDisplay
  yg_position_type :: YGPositionType
  yg_overflow :: YGOverflow
  yg_flex_direction :: YGFlexDirection
  yg_flex_wrap :: YGWrap
  yg_justify_content :: YGJustify
  yg_align_items :: YGAlign
  yg_align_content :: YGAlign
  yg_align_self :: YGAlign
  yg_margin :: "YGEdge \<Rightarrow> YGValue"
  yg_padding :: "YGEdge \<Rightarrow> YGValue"
  yg_border :: "YGEdge \<Rightarrow> f32"
  yg_position :: "YGEdge \<Rightarrow> YGValue"
  yg_width :: YGValue
  yg_height :: YGValue
  yg_min_width :: YGValue
  yg_min_height :: YGValue
  yg_max_width :: YGValue
  yg_max_height :: YGValue
  yg_flex_basis :: YGValue
  yg_flex_grow :: f32
  yg_flex_shrink :: f32
  yg_aspect_ratio :: f32
  yg_gap :: "YGGutter \<Rightarrow> f32"

definition YGNodeStyleSetDisplay :: "YGStyle \<Rightarrow> YGDisplay \<Rightarrow> YGStyle" where
  "YGNodeStyleSetDisplay node d = node\<lparr>yg_display := d\<rparr>"

definition YGNodeStyleSetPositionType :: "YGStyle \<Rightarrow> YGPositionType \<Rightarrow> YGStyle" where
  "YGNodeStyleSetPositionType node t = node\<lparr>yg_position_type := t\<rparr>"

definition YGNodeStyleSetOverflow :: "YGStyle \<Rightarrow> YGOverflow \<Rightarrow> YGStyle" where
  "YGNodeStyleSetOverflow node ov = node\<lparr>yg_overflow := ov\<rparr>"

definition YGNodeStyleSetFlexDirection :: "YGStyle \<Rightarrow> YGFlexDirection \<Rightarrow> YGStyle" where
  "YGNodeStyleSetFlexDirection node d = node\<lparr>yg_flex_direction := d\<rparr>"

definition YGNodeStyleSetFlexWrap :: "YGStyle \<Rightarrow> YGWrap \<Rightarrow> YGStyle" where
  "YGNodeStyleSetFlexWrap node w = node\<lparr>yg_flex_wrap := w\<rparr>"

definition YGNodeStyleSetJustifyContent :: "YGStyle \<Rightarrow> YGJustify \<Rightarrow> YGStyle" where
  "YGNodeStyleSetJustifyContent node j = node\<lparr>yg_justify_content := j\<rparr>"

definition YGNodeStyleSetAlignItems :: "YGStyle \<Rightarrow> YGAlign \<Rightarrow> YGStyle" where
  "YGNodeStyleSetAlignItems node a = node\<lparr>yg_align_items := a\<rparr>"

definition YGNodeStyleSetAlignContent :: "YGStyle \<Rightarrow> YGAlign \<Rightarrow> YGStyle" where
  "YGNodeStyleSetAlignContent node a = node\<lparr>yg_align_content := a\<rparr>"

definition YGNodeStyleSetAlignSelf :: "YGStyle \<Rightarrow> YGAlign \<Rightarrow> YGStyle" where
  "YGNodeStyleSetAlignSelf node a = node\<lparr>yg_align_self := a\<rparr>"

definition YGNodeStyleSetMargin :: "YGStyle \<Rightarrow> YGEdge \<Rightarrow> f32 \<Rightarrow> YGStyle" where
  "YGNodeStyleSetMargin node edge points =
     node\<lparr>yg_margin := (yg_margin node)(edge := YGValue points YGUnitPoint)\<rparr>"

definition YGNodeStyleSetMarginPercent :: "YGStyle \<Rightarrow> YGEdge \<Rightarrow> f32 \<Rightarrow> YGStyle" where
  "YGNodeStyleSetMarginPercent node edge percent =
     node\<lparr>yg_margin := (yg_margin node)(edge := YGValue percent YGUnitPercent)\<rparr>"

definition YGNodeStyleSetMarginAuto :: "YGStyle \<Rightarrow> YGEdge \<Rightarrow> YGStyle" where
  "YGNodeStyleSetMarginAuto node edge =
     node\<lparr>yg_margin := (yg_margin node)(edge := YGValue YGUndefined YGUnitAuto)\<rparr>"

definition YGNodeStyleSetPadding :: "YGStyle \<Rightarrow> YGEdge \<Rightarrow> f32 \<Rightarrow> YGStyle" where
  "YGNodeStyleSetPadding node edge points =
     node\<lparr>yg_padding := (yg_padding node)(edge := YGValue points YGUnitPoint)\<rparr>"

definition YGNodeStyleSetPaddingPercent :: "YGStyle \<Rightarrow> YGEdge \<Rightarrow> f32 \<Rightarrow> YGStyle" where
  "YGNodeStyleSetPaddingPercent node edge percent =
     node\<lparr>yg_padding := (yg_padding node)(edge := YGValue percent YGUnitPercent)\<rparr>"

definition YGNodeStyleSetBorder :: "YGStyle \<Rightarrow> YGEdge \<Rightarrow> f32 \<Rightarrow> YGStyle" where
  "YGNodeStyleSetBorder node edge b = node\<lparr>yg_border := (yg_border node)(edge := b)\<rparr>"

definition YGNodeStyleSetPosition :: "YGStyle \<Rightarrow> YGEdge \<Rightarrow> f32 \<Rightarrow> YGStyle" where
  "YGNodeStyleSetPosition node edge points =
     node\<lparr>yg_position := (yg_position node)(edge := YGValue points YGUnitPoint)\<rparr>"

definition YGNodeStyleSetPositionPercent :: "YGStyle \<Rightarrow> YGEdge \<Rightarrow> f32 \<Rightarrow> YGStyle" where
  "YGNodeStyleSetPositionPercent node edge percent =
     node\<lparr>yg_position := (yg_position node)(edge := YGValue percent YGUnitPercent)\<rparr>"

definition YGNodeStyleSetWidth :: "YGStyle \<Rightarrow> f32 \<Rightarrow> YGStyle" where
  "YGNodeStyleSetWidth node points = node\<lparr>yg_width := YGValue points YGUnitPoint\<rparr>"

definition YGNodeStyleSetWidthPercent :: "YGStyle \<Rightarrow> f32 \<Rightarrow> YGStyle" where
  "YGNodeStyleSetWidthPercent node percent = node\<lparr>yg_width := YGValue percent YGUnitPercent\<rparr>"

definition YGNodeStyleSetWidthAuto :: "YGStyle \<Rightarrow> YGStyle" where
  "YGNodeStyleSetWidthAuto node = node\<lparr>yg_width := YGValue YGUndefined YGUnitAuto\<rparr>"

definition YGNodeStyleSetHeight :: "YGStyle \<Rightarrow> f32 \<Rightarrow> YGStyle" where
  "YGNodeStyleSetHeight node points = node\<lparr>yg_height := YGValue points YGUnitPoint\<rparr>"

definition YGNodeStyleSetHeightPercent :: "YGStyle \<Rightarrow> f32 \<Rightarrow> YGStyle" where
  "YGNodeStyleSetHeightPercent node percent =
     node\<lparr>yg_height := YGValue percent YGUnitPercent\<rparr>"

definition YGNodeStyleSetHeightAuto :: "YGStyle \<Rightarrow> YGStyle" where
  "YGNodeStyleSetHeightAuto node = node\<lparr>yg_height := YGValue YGUndefined YGUnitAuto\<rparr>"

definition YGNodeStyleSetMinWidth :: "YGStyle \<Rightarrow> f32 \<Rightarrow> YGStyle" where
  "YGNodeStyleSetMinWidth node points = node\<lparr>yg_min_width := YGValue points YGUnitPoint\<rparr>"

definition YGNodeStyleSetMinWidthPercent :: "YGStyle \<Rightarrow> f32 \<Rightarrow> YGStyle" where
  "YGNodeStyleSetMinWidthPercent node percent =
     node\<lparr>yg_min_width := YGValue percent YGUnitPercent\<rparr>"

definition YGNodeStyleSetMinHeight :: "YGStyle \<Rightarrow> f32 \<Rightarrow> YGStyle" where
  "YGNodeStyleSetMinHeight node points = node\<lparr>yg_min_height := YGValue points YGUnitPoint\<rparr>"

definition YGNodeStyleSetMinHeightPercent :: "YGStyle \<Rightarrow> f32 \<Rightarrow> YGStyle" where
  "YGNodeStyleSetMinHeightPercent node percent =
     node\<lparr>yg_min_height := YGValue percent YGUnitPercent\<rparr>"

definition YGNodeStyleSetMaxWidth :: "YGStyle \<Rightarrow> f32 \<Rightarrow> YGStyle" where
  "YGNodeStyleSetMaxWidth node points = node\<lparr>yg_max_width := YGValue points YGUnitPoint\<rparr>"

definition YGNodeStyleSetMaxWidthPercent :: "YGStyle \<Rightarrow> f32 \<Rightarrow> YGStyle" where
  "YGNodeStyleSetMaxWidthPercent node percent =
     node\<lparr>yg_max_width := YGValue percent YGUnitPercent\<rparr>"

definition YGNodeStyleSetMaxHeight :: "YGStyle \<Rightarrow> f32 \<Rightarrow> YGStyle" where
  "YGNodeStyleSetMaxHeight node points = node\<lparr>yg_max_height := YGValue points YGUnitPoint\<rparr>"

definition YGNodeStyleSetMaxHeightPercent :: "YGStyle \<Rightarrow> f32 \<Rightarrow> YGStyle" where
  "YGNodeStyleSetMaxHeightPercent node percent =
     node\<lparr>yg_max_height := YGValue percent YGUnitPercent\<rparr>"

definition YGNodeStyleSetFlexBasis :: "YGStyle \<Rightarrow> f32 \<Rightarrow> YGStyle" where
  "YGNodeStyleSetFlexBasis node points = node\<lparr>yg_flex_basis := YGValue points YGUnitPoint\<rparr>"

definition YGNodeStyleSetFlexBasisPercent :: "YGStyle \<Rightarrow> f32 \<Rightarrow> YGStyle" where
  "YGNodeStyleSetFlexBasisPercent node percent =
     node\<lparr>yg_flex_basis := YGValue percent YGUnitPercent\<rparr>"

definition YGNodeStyleSetFlexBasisAuto :: "YGStyle \<Rightarrow> YGStyle" where
  "YGNodeStyleSetFlexBasisAuto node = node\<lparr>yg_flex_basis := YGValue YGUndefined YGUnitAuto\<rparr>"

definition YGNodeStyleSetFlexGrow :: "YGStyle \<Rightarrow> f32 \<Rightarrow> YGStyle" where
  "YGNodeStyleSetFlexGrow node g = node\<lparr>yg_flex_grow := g\<rparr>"

definition YGNodeStyleSetFlexShrink :: "YGStyle \<Rightarrow> f32 \<Rightarrow> YGStyle" where
  "YGNodeStyleSetFlexShrink node s = node\<lparr>yg_flex_shrink := s\<rparr>"

definition YGNodeStyleSetAspectRatio :: "YGStyle \<Rightarrow> f32 \<Rightarrow> YGStyle" where
  "YGNodeStyleSetAspectRatio node r = node\<lparr>yg_aspect_ratio := r\<rparr>"

definition YGNodeStyleSetGap :: "YGStyle \<Rightarrow> YGGutter \<Rightarrow> f32 \<Rightarrow> YGStyle" where
  "YGNodeStyleSetGap node gutter gap_length =
     node\<lparr>yg_gap := (yg_gap node)(gutter := gap_length)\<rparr>"

subsection \<open>Applying a shared style\<close>

text \<open>
  \<open>set_auto\<close> is a nullable function pointer: \<open>None\<close> is \<open>nullptr\<close>. The \<open>node\<close>
  argument of the functions of this subsection is the style of the node the pointer
  refers to; \<open>yoga_set_style\<close> below resolves the pointer.
\<close>

definition apply_edge_value ::
  "YGStyle \<Rightarrow> YGEdge \<Rightarrow> YogaValue \<Rightarrow> (YGStyle \<Rightarrow> YGEdge \<Rightarrow> f32 \<Rightarrow> YGStyle)
   \<Rightarrow> (YGStyle \<Rightarrow> YGEdge \<Rightarrow> f32 \<Rightarrow> YGStyle) \<Rightarrow> (YGStyle \<Rightarrow> YGEdge \<Rightarrow> YGStyle) option
   \<Rightarrow> YGStyle" where
  "apply_edge_value node edge v set_point set_percent set_auto =
     (case v_unit v of
        YogaValueUnit_Percent \<Rightarrow> set_percent node edge (v_value v)
      | YogaValueUnit_Point \<Rightarrow> set_point node edge (v_value v)
      | YogaValueUnit_Auto \<Rightarrow>
          (case set_auto of
             Some f \<Rightarrow> f node edge
           | None \<Rightarrow> set_point node edge YGUndefined)
      | YogaValueUnit_Undefined \<Rightarrow> set_point node edge YGUndefined)"

definition apply_dimension ::
  "YGStyle \<Rightarrow> YogaValue \<Rightarrow> (YGStyle \<Rightarrow> f32 \<Rightarrow> YGStyle) \<Rightarrow> (YGStyle \<Rightarrow> f32 \<Rightarrow> YGStyle)
   \<Rightarrow> (YGStyle \<Rightarrow> YGStyle) option \<Rightarrow> YGStyle" where
  "apply_dimension node v set_point set_percent set_auto =
     (case v_unit v of
        YogaValueUnit_Percent \<Rightarrow> set_percent node (v_value v)
      | YogaValueUnit_Point \<Rightarrow> set_point node (v_value v)
      | YogaValueUnit_Auto \<Rightarrow>
          (case set_auto of
             Some f \<Rightarrow> f node
           | None \<Rightarrow> set_point node YGUndefined)
      | YogaValueUnit_Undefined \<Rightarrow> set_point node YGUndefined)"

definition apply_style :: "YGStyle \<Rightarrow> YogaStyle \<Rightarrow> YGStyle" where
  \<comment> \<open>The statements of the body, run in order on the node.\<close>
  "apply_style node0 style = fold (\<lambda>statement node. statement node)
    [\<lambda>node. YGNodeStyleSetDisplay node (to_yg_display (display style)),
     \<lambda>node. YGNodeStyleSetPositionType node (to_yg_position_type (position_type style)),
     \<lambda>node. YGNodeStyleSetOverflow node (to_yg_overflow (overflow style)),
     \<lambda>node. YGNodeStyleSetFlexDirection node (to_yg_flex_direction (flex_direction style)),
     \<lambda>node. YGNodeStyleSetFlexWrap node (to_yg_wrap (flex_wrap style)),
     \<lambda>node. YGNodeStyleSetJustifyContent node (to_yg_justify (justify_content style)),
     \<lambda>node. YGNodeStyleSetAlignItems node (to_yg_align (align_items style)),
     \<lambda>node. YGNodeStyleSetAlignContent node (to_yg_align (align_content style)),
     \<lambda>node. YGNodeStyleSetAlignSelf node (to_yg_align (align_self style)),

     \<lambda>node. apply_edge_value node YGEdgeLeft (left (margin style)) YGNodeStyleSetMargin
               YGNodeStyleSetMarginPercent (Some YGNodeStyleSetMarginAuto),
     \<lambda>node. apply_edge_value node YGEdgeTop (top' (margin style)) YGNodeStyleSetMargin
               YGNodeStyleSetMarginPercent (Some YGNodeStyleSetMarginAuto),
     \<lambda>node. apply_edge_value node YGEdgeRight (right (margin style)) YGNodeStyleSetMargin
               YGNodeStyleSetMarginPercent (Some YGNodeStyleSetMarginAuto),
     \<lambda>node. apply_edge_value node YGEdgeBottom (bottom (margin style)) YGNodeStyleSetMargin
               YGNodeStyleSetMarginPercent (Some YGNodeStyleSetMarginAuto),

     \<lambda>node. apply_edge_value node YGEdgeLeft (left (padding style)) YGNodeStyleSetPadding
               YGNodeStyleSetPaddingPercent None,
     \<lambda>node. apply_edge_value node YGEdgeTop (top' (padding style)) YGNodeStyleSetPadding
               YGNodeStyleSetPaddingPercent None,
     \<lambda>node. apply_edge_value node YGEdgeRight (right (padding style)) YGNodeStyleSetPadding
               YGNodeStyleSetPaddingPercent None,
     \<lambda>node. apply_edge_value node YGEdgeBottom (bottom (padding style)) YGNodeStyleSetPadding
               YGNodeStyleSetPaddingPercent None,

     \<lambda>node. YGNodeStyleSetBorder node YGEdgeLeft (v_value (left (border style))),
     \<lambda>node. YGNodeStyleSetBorder node YGEdgeTop (v_value (top' (border style))),
     \<lambda>node. YGNodeStyleSetBorder node YGEdgeRight (v_value (right (border style))),
     \<lambda>node. YGNodeStyleSetBorder node YGEdgeBottom (v_value (bottom (border style))),

     \<lambda>node. apply_edge_value node YGEdgeLeft (left (inset style)) YGNodeStyleSetPosition
               YGNodeStyleSetPositionPercent None,
     \<lambda>node. apply_edge_value node YGEdgeTop (top' (inset style)) YGNodeStyleSetPosition
               YGNodeStyleSetPositionPercent None,
     \<lambda>node. apply_edge_value node YGEdgeRight (right (inset style)) YGNodeStyleSetPosition
               YGNodeStyleSetPositionPercent None,
     \<lambda>node. apply_edge_value node YGEdgeBottom (bottom (inset style)) YGNodeStyleSetPosition
               YGNodeStyleSetPositionPercent None,

     \<lambda>node. apply_dimension node (width (size' style)) YGNodeStyleSetWidth
               YGNodeStyleSetWidthPercent (Some YGNodeStyleSetWidthAuto),
     \<lambda>node. apply_dimension node (height (size' style)) YGNodeStyleSetHeight
               YGNodeStyleSetHeightPercent (Some YGNodeStyleSetHeightAuto),
     \<lambda>node. apply_dimension node (width (min_size style)) YGNodeStyleSetMinWidth
               YGNodeStyleSetMinWidthPercent None,
     \<lambda>node. apply_dimension node (height (min_size style)) YGNodeStyleSetMinHeight
               YGNodeStyleSetMinHeightPercent None,
     \<lambda>node. apply_dimension node (width (max_size style)) YGNodeStyleSetMaxWidth
               YGNodeStyleSetMaxWidthPercent None,
     \<lambda>node. apply_dimension node (height (max_size style)) YGNodeStyleSetMaxHeight
               YGNodeStyleSetMaxHeightPercent None,

     \<lambda>node. if has_flex_basis style
              then apply_dimension node (flex_basis style) YGNodeStyleSetFlexBasis
                     YGNodeStyleSetFlexBasisPercent (Some YGNodeStyleSetFlexBasisAuto)
              else YGNodeStyleSetFlexBasisAuto node,

     \<lambda>node. if has_flex_grow style
              then YGNodeStyleSetFlexGrow node (flex_grow style) else node,
     \<lambda>node. if has_flex_shrink style
              then YGNodeStyleSetFlexShrink node (flex_shrink style) else node,

     \<lambda>node. if has_aspect_ratio style
              then YGNodeStyleSetAspectRatio node (aspect_ratio style)
              else YGNodeStyleSetAspectRatio node YGUndefined,

     \<lambda>node. if v_unit (width (gap style)) \<noteq> YogaValueUnit_Undefined
              then YGNodeStyleSetGap node YGGutterColumn (yg_value (to_yg_value (width (gap style))))
              else node,
     \<lambda>node. if v_unit (height (gap style)) \<noteq> YogaValueUnit_Undefined
              then YGNodeStyleSetGap node YGGutterRow (yg_value (to_yg_value (height (gap style))))
              else node] node0"

subsection \<open>The node store\<close>

text \<open>
  A \<open>YGNodeRef\<close> is a pointer into Yoga's heap. The store maps the addresses of the live
  nodes to their contents; an address outside its domain is a pointer to no node (never
  allocated, or freed). C++ gives no meaning to a call that passes such a pointer
  to Yoga: the model returns \<open>Invalid_Pointer\<close> there. \<open>Out_Of_Fuel\<close> is returned by the
  recursive traversals when the recursion is deeper than the fuel they were given.

  The \<open>MeasureContext\<close> that the bridge allocates with \<open>new\<close> and hangs on the node's context
  pointer is kept with the node: \<open>None\<close> is a null context pointer. The measure function of
  a node is either \<open>measure_proxy\<close> (\<open>True\<close>) or null (\<open>False\<close>). \<open>drop_calls\<close> lists the
  ids \<open>yoga_drop_measure\<close> was called with, oldest first.
\<close>

datatype fault = Invalid_Pointer | Out_Of_Fuel

datatype MeasureContext = MeasureContext (ctx_id: "64 word")

datatype YGLayout = YGLayout (l_left: f32) (l_top: f32) (l_width: f32) (l_height: f32)

record YGNode =
  yg_style :: YGStyle
  yg_children :: "YGNodeRef list"
  yg_owner :: YGNodeRef
  yg_context :: "MeasureContext option"
  yg_has_measure_func :: bool
  yg_layout :: YGLayout

record bridge =
  nodes :: "YGNodeRef \<Rightarrow> YGNode option"
  drop_calls :: "64 word list"

definition set_node :: "YGNodeRef \<Rightarrow> (YGNode \<Rightarrow> YGNode) \<Rightarrow> bridge \<Rightarrow> bridge" where
  \<comment> \<open>A write through a pointer to a live node.\<close>
  "set_node p f st = st\<lparr>nodes := (nodes st)(p := map_option f (nodes st p))\<rparr>"

text \<open>
  Modelled from the spec: the functions named \<open>YGNode...\<close> belong to the Yoga library
  (yoga/Yoga.h), which is not among the sources. They are modelled on the fields of the
  spec's Node (section 3: a style, an ordered list of child references, at most one
  attached measurement id, a cached layout), with the owner pointer Yoga keeps per node.
  Dirty flags and the solver's caches are not represented.
\<close>

definition YGStyle_default :: YGStyle where
  "YGStyle_default =
     \<lparr>yg_display = YGDisplayFlex, yg_position_type = YGPositionTypeRelative,
      yg_overflow = YGOverflowVisible, yg_flex_direction = YGFlexDirectionColumn,
      yg_flex_wrap = YGWrapNoWrap, yg_justify_content = YGJustifyFlexStart,
      yg_align_items = YGAlignStretch, yg_align_content = YGAlignFlexStart,
      yg_align_self = YGAlignAuto,
      yg_margin = (\<lambda>_. YGValue YGUndefined YGUnitUndefined),
      yg_padding = (\<lambda>_. YGValue YGUndefined YGUnitUndefined),
      yg_border = (\<lambda>_. YGUndefined),
      yg_position = (\<lambda>_. YGValue YGUndefined YGUnitUndefined),
      yg_width = YGValue YGUndefined YGUnitAuto, yg_height = YGValue YGUndefined YGUnitAuto,
      yg_min_width = YGValue YGUndefined YGUnitUndefined,
      yg_min_height = YGValue YGUndefined YGUnitUndefined,
      yg_max_width = YGValue YGUndefined YGUnitUndefined,
      yg_max_height = YGValue YGUndefined YGUnitUndefined,
      yg_flex_basis = YGValue YGUndefined YGUnitAuto,
      yg_flex_grow = YGUndefined, yg_flex_shrink = YGUndefined,
      yg_aspect_ratio = YGUndefined, yg_gap = (\<lambda>_. YGUndefined)\<rparr>"

definition YGNodeNew :: YGNode where
  \<comment> \<open>The contents of a node just created: default style, no children, no owner, no
      context, no measure function.\<close>
  "YGNodeNew =
     \<lparr>yg_style = YGStyle_default, yg_children = [], yg_owner = nullptr, yg_context = None,
      yg_has_measure_func = False, yg_layout = YGLayout 0 0 0 0\<rparr>"

definition YGNodeGetContext :: "bridge \<Rightarrow> YGNodeRef \<Rightarrow> fault + MeasureContext option" where
  "YGNodeGetContext st node =
     (case nodes st node of None \<Rightarrow> Inl Invalid_Pointer | Some n \<Rightarrow> Inr (yg_context n))"

definition YGNodeSetContext :: "YGNodeRef \<Rightarrow> MeasureContext option \<Rightarrow> bridge \<Rightarrow> fault + bridge" where
  "YGNodeSetContext node ctx st =
     (case nodes st node of
        None \<Rightarrow> Inl Invalid_Pointer
      | Some n \<Rightarrow> Inr (set_node node (\<lambda>n. n\<lparr>yg_context := ctx\<rparr>) st))"

definition YGNodeSetMeasureFunc :: "YGNodeRef \<Rightarrow> bool \<Rightarrow> bridge \<Rightarrow> fault + bridge" where
  "YGNodeSetMeasureFunc node f st =
     (case nodes st node of
        None \<Rightarrow> Inl Invalid_Pointer
      | Some n \<Rightarrow> Inr (set_node node (\<lambda>n. n\<lparr>yg_has_measure_func := f\<rparr>) st))"

definition YGNodeGetChildCount :: "bridge \<Rightarrow> YGNodeRef \<Rightarrow> fault + nat" where
  "YGNodeGetChildCount st node =
     (case nodes st node of
        None \<Rightarrow> Inl Invalid_Pointer
      | Some n \<Rightarrow> Inr (length (yg_children n)))"

definition YGNodeGetChild :: "bridge \<Rightarrow> YGNodeRef \<Rightarrow> nat \<Rightarrow> fault + YGNodeRef" where
  "YGNodeGetChild st node i =
     (case nodes st node of
        None \<Rightarrow> Inl Invalid_Pointer
      | Some n \<Rightarrow> Inr (if i < length (yg_children n) then yg_children n ! i else nullptr))"

definition detach :: "YGNode \<Rightarrow> YGNode" where
  \<comment> \<open>What Yoga does to a child it unlinks: the layout is reset and the owner cleared.\<close>
  "detach n = n\<lparr>yg_layout := YGLayout 0 0 0 0, yg_owner := nullptr\<rparr>"

definition YGNodeRemoveAllChildren :: "YGNodeRef \<Rightarrow> bridge \<Rightarrow> fault + bridge" where
  "YGNodeRemoveAllChildren owner st =
     (case nodes st owner of
        None \<Rightarrow> Inl Invalid_Pointer
      | Some ow \<Rightarrow>
          (case yg_children ow of
             [] \<Rightarrow> Inr st
           | first_child # _ \<Rightarrow>
               (case nodes st first_child of
                  None \<Rightarrow> Inl Invalid_Pointer
                | Some fc \<Rightarrow>
                    if yg_owner fc = owner then
                      (if list_all (\<lambda>c. nodes st c \<noteq> None) (yg_children ow)
                       then Inr (set_node owner (\<lambda>n. n\<lparr>yg_children := []\<rparr>)
                                  (fold (\<lambda>c. set_node c detach) (yg_children ow) st))
                       else Inl Invalid_Pointer)
                    else Inr (set_node owner (\<lambda>n. n\<lparr>yg_children := []\<rparr>) st))))"

definition YGNodeSetChildren :: "YGNodeRef \<Rightarrow> YGNodeRef list \<Rightarrow> nat \<Rightarrow> bridge \<Rightarrow> fault + bridge" where
  \<comment> \<open>\<open>refs\<close> and \<open>count\<close> are the array and the number of its elements to install.\<close>
  "YGNodeSetChildren owner refs count' st =
     (case nodes st owner of
        None \<Rightarrow> Inl Invalid_Pointer
      | Some ow \<Rightarrow>
          let children = take count' refs in
          if list_all (\<lambda>c. nodes st c \<noteq> None) (yg_children ow @ children) then
            (if count' = 0 then
               (if yg_children ow = [] then Inr st
                else Inr (set_node owner (\<lambda>n. n\<lparr>yg_children := []\<rparr>)
                           (fold (\<lambda>c. set_node c detach) (yg_children ow) st)))
             else
               Inr (fold (\<lambda>c. set_node c (\<lambda>n. n\<lparr>yg_owner := owner\<rparr>)) children
                     (set_node owner (\<lambda>n. n\<lparr>yg_children := children\<rparr>)
                       (fold (\<lambda>c. if c \<in> set children then id else set_node c detach)
                          (yg_children ow) st))))
          else Inl Invalid_Pointer)"

definition YGNodeRemoveChild :: "YGNodeRef \<Rightarrow> YGNodeRef \<Rightarrow> bridge \<Rightarrow> fault + bridge" where
  "YGNodeRemoveChild owner excluded_child st =
     (case nodes st owner of
        None \<Rightarrow> Inl Invalid_Pointer
      | Some ow \<Rightarrow>
          if yg_children ow = [] then Inr st
          else
            (case nodes st excluded_child of
               None \<Rightarrow> Inl Invalid_Pointer
             | Some ch \<Rightarrow>
                 if excluded_child \<in> set (yg_children ow) then
                   let st1 = set_node owner
                               (\<lambda>n. n\<lparr>yg_children := remove1 excluded_child (yg_children n)\<rparr>) st
                   in if yg_owner ch = owner then Inr (set_node excluded_child detach st1)
                      else Inr st1
                 else Inr st))"

definition YGNodeFree :: "YGNodeRef \<Rightarrow> bridge \<Rightarrow> fault + bridge" where
  "YGNodeFree node st =
     (case nodes st node of
        None \<Rightarrow> Inl Invalid_Pointer
      | Some n \<Rightarrow>
          if yg_owner n \<noteq> nullptr \<and> nodes st (yg_owner n) = None then Inl Invalid_Pointer
          else if list_all (\<lambda>c. nodes st c \<noteq> None) (yg_children n) then
            (let st1 = (if yg_owner n \<noteq> nullptr
                        then set_node node (\<lambda>m. m\<lparr>yg_owner := nullptr\<rparr>)
                               (set_node (yg_owner n)
                                  (\<lambda>m. m\<lparr>yg_children := remove1 node (yg_children m)\<rparr>) st)
                        else st);
                 cs = (case nodes st1 node of None \<Rightarrow> [] | Some m \<Rightarrow> yg_children m);
                 st2 = fold (\<lambda>c. set_node c (\<lambda>m. m\<lparr>yg_owner := nullptr\<rparr>)) cs st1
             in Inr (st2\<lparr>nodes := (nodes st2)(node := None)\<rparr>))
          else Inl Invalid_Pointer)"

fun YGNodeFreeRecursive :: "nat \<Rightarrow> YGNodeRef \<Rightarrow> bridge \<Rightarrow> fault + bridge"
  and free_owned_children :: "nat \<Rightarrow> YGNodeRef \<Rightarrow> nat \<Rightarrow> bridge \<Rightarrow> fault + bridge"
where
  "YGNodeFreeRecursive 0 root st = Inl Out_Of_Fuel"
| "YGNodeFreeRecursive (Suc fuel) root st =
     (case free_owned_children fuel root 0 st of
        Inl e \<Rightarrow> Inl e
      | Inr st1 \<Rightarrow> YGNodeFree root st1)"
| "free_owned_children 0 root skipped st = Inl Out_Of_Fuel"
| "free_owned_children (Suc fuel) root skipped st =
     (case nodes st root of
        None \<Rightarrow> Inl Invalid_Pointer
      | Some r \<Rightarrow>
          if length (yg_children r) > skipped then
            (let child = yg_children r ! skipped in
             case nodes st child of
               None \<Rightarrow> Inl Invalid_Pointer
             | Some ch \<Rightarrow>
                 if yg_owner ch \<noteq> root then free_owned_children fuel root (skipped + 1) st
                 else
                   (case YGNodeRemoveChild root child st of
                      Inl e \<Rightarrow> Inl e
                    | Inr st1 \<Rightarrow>
                        (case YGNodeFreeRecursive fuel child st1 of
                           Inl e \<Rightarrow> Inl e
                         | Inr st2 \<Rightarrow> free_owned_children fuel root skipped st2)))
          else Inr st)"

subsection \<open>Measure contexts\<close>

definition drop_measure_context :: "YGNodeRef \<Rightarrow> bridge \<Rightarrow> fault + bridge" where
  "drop_measure_context node st =
     (if node = nullptr then Inr st
      else
        (case YGNodeGetContext st node of
           Inl e \<Rightarrow> Inl e
         | Inr None \<Rightarrow> Inr st
         | Inr (Some ctx) \<Rightarrow>
             YGNodeSetContext node None (st\<lparr>drop_calls := drop_calls st @ [ctx_id ctx]\<rparr>)))"

fun release_measure_recursive :: "nat \<Rightarrow> YGNodeRef \<Rightarrow> bridge \<Rightarrow> fault + bridge"
  and release_children :: "nat \<Rightarrow> YGNodeRef \<Rightarrow> nat \<Rightarrow> nat \<Rightarrow> bridge \<Rightarrow> fault + bridge"
where
  "release_measure_recursive 0 node st = Inl Out_Of_Fuel"
| "release_measure_recursive (Suc fuel) node st =
     (if node = nullptr then Inr st
      else
        (case drop_measure_context node st of
           Inl e \<Rightarrow> Inl e
         | Inr st1 \<Rightarrow>
             (case YGNodeGetChildCount st1 node of
                Inl e \<Rightarrow> Inl e
              | Inr child_count \<Rightarrow> release_children fuel node 0 child_count st1)))"
| "release_children 0 node i child_count st = Inl Out_Of_Fuel"
| "release_children (Suc fuel) node i child_count st =
     (if i < child_count then
        (case YGNodeGetChild st node i of
           Inl e \<Rightarrow> Inl e
         | Inr child \<Rightarrow>
             (case release_measure_recursive fuel child st of
                Inl e \<Rightarrow> Inl e
              | Inr st1 \<Rightarrow> release_children fuel node (i + 1) child_count st1))
      else Inr st)"

fun YGMeasureMode_number :: "YGMeasureMode \<Rightarrow> nat" where
  \<comment> \<open>The numbers Yoga gives its enumerators (yoga/YGEnums.h, a header of the Yoga
      library): Undefined 0, Exactly 1, AtMost 2.\<close>
  "YGMeasureMode_number YGMeasureModeUndefined = 0"
| "YGMeasureMode_number YGMeasureModeExactly = 1"
| "YGMeasureMode_number YGMeasureModeAtMost = 2"

definition static_cast_YogaMeasureMode :: "YGMeasureMode \<Rightarrow> YogaMeasureMode" where
  \<comment> \<open>A cast between two enums keeps the number.\<close>
  "static_cast_YogaMeasureMode m = YogaMeasureMode (YGMeasureMode_number m)"

definition measure_proxy ::
  "(64 word \<Rightarrow> YogaMeasureInput \<Rightarrow> YogaMeasureInput \<Rightarrow> YogaSize) \<Rightarrow> bridge \<Rightarrow> YGNodeRef
   \<Rightarrow> f32 \<Rightarrow> YGMeasureMode \<Rightarrow> f32 \<Rightarrow> YGMeasureMode \<Rightarrow> fault + YGSize" where
  \<comment> \<open>\<open>yoga_measure\<close>, the callback into Rust, is the first argument.\<close>
  "measure_proxy yoga_measure st node w width_mode h height_mode =
     (case YGNodeGetContext st node of
        Inl e \<Rightarrow> Inl e
      | Inr None \<Rightarrow> Inr (YGSize 0 0)
      | Inr (Some ctx) \<Rightarrow>
          let width_input = YogaMeasureInput w (static_cast_YogaMeasureMode width_mode);
              height_input = YogaMeasureInput h (static_cast_YogaMeasureMode height_mode);
              result = yoga_measure (ctx_id ctx) width_input height_input
          in Inr (YGSize (s_width result) (s_height result)))"

subsection \<open>The handle layer\<close>

definition yoga_create_node :: "YGNodeRef \<Rightarrow> bridge \<Rightarrow> YogaNodeHandle \<times> bridge" where
  \<comment> \<open>\<open>p\<close> is the address the allocator gives the new node.\<close>
  "yoga_create_node p st = (to_handle p, st\<lparr>nodes := (nodes st)(p \<mapsto> YGNodeNew)\<rparr>)"

definition yoga_free_node :: "nat \<Rightarrow> YogaNodeHandle \<Rightarrow> bridge \<Rightarrow> fault + bridge" where
  "yoga_free_node fuel handle st =
     (let node = from_handle handle in
      if node = nullptr then Inr st
      else
        (case release_measure_recursive fuel node st of
           Inl e \<Rightarrow> Inl e
         | Inr st1 \<Rightarrow> YGNodeFreeRecursive fuel node st1))"

definition yoga_set_style :: "YogaNodeHandle \<Rightarrow> YogaStyle \<Rightarrow> bridge \<Rightarrow> fault + bridge" where
  "yoga_set_style handle style st =
     (let node = from_handle handle in
      if node = nullptr then Inr st
      else
        (case nodes st node of
           None \<Rightarrow> Inl Invalid_Pointer
         | Some n \<Rightarrow> Inr (set_node node (\<lambda>n. n\<lparr>yg_style := apply_style (yg_style n) style\<rparr>) st)))"

definition yoga_set_children :: "YogaNodeHandle \<Rightarrow> YogaNodeHandle list \<Rightarrow> bridge \<Rightarrow> fault + bridge" where
  "yoga_set_children parent_handle children st =
     (let parent = from_handle parent_handle in
      if parent = nullptr then Inr st
      else
        (let refs = map from_handle children in
         if refs = [] then YGNodeRemoveAllChildren parent st
         else YGNodeSetChildren parent refs (unat (word_of_nat (length refs) :: 32 word)) st))"

definition yoga_mark_dirty ::
  "(YGNodeRef \<Rightarrow> bridge \<Rightarrow> bridge) \<Rightarrow> YogaNodeHandle \<Rightarrow> bridge \<Rightarrow> fault + bridge" where
  \<comment> \<open>The first argument is Yoga's \<open>YGNodeMarkDirty\<close> on a live node.\<close>
  "yoga_mark_dirty YGNodeMarkDirty handle st =
     (let node = from_handle handle in
      if node = nullptr then Inr st
      else
        (case nodes st node of
           None \<Rightarrow> Inl Invalid_Pointer
         | Some n \<Rightarrow> Inr (YGNodeMarkDirty node st)))"

definition yoga_set_measure :: "YogaNodeHandle \<Rightarrow> 64 word \<Rightarrow> bridge \<Rightarrow> fault + bridge" where
  "yoga_set_measure handle measure_id st =
     (let node = from_handle handle in
      if node = nullptr then Inr st
      else if measure_id = 0 then
        (case YGNodeSetMeasureFunc node False st of
           Inl e \<Rightarrow> Inl e
         | Inr st1 \<Rightarrow> drop_measure_context node st1)
      else
        (case drop_measure_context node st of
           Inl e \<Rightarrow> Inl e
         | Inr st1 \<Rightarrow>
             (case YGNodeSetContext node (Some (MeasureContext measure_id)) st1 of
                Inl e \<Rightarrow> Inl e
              | Inr st2 \<Rightarrow> YGNodeSetMeasureFunc node True st2)))"

definition yoga_clear_measure :: "YogaNodeHandle \<Rightarrow> bridge \<Rightarrow> fault + bridge" where
  "yoga_clear_measure handle st =
     (let node = from_handle handle in
      if node = nullptr then Inr st
      else
        (case YGNodeSetMeasureFunc node False st of
           Inl e \<Rightarrow> Inl e
         | Inr st1 \<Rightarrow> drop_measure_context node st1))"

definition yoga_calculate_layout ::
  "(YGNodeRef \<Rightarrow> f32 \<Rightarrow> f32 \<Rightarrow> YGDirection \<Rightarrow> bridge \<Rightarrow> bridge) \<Rightarrow> YogaNodeHandle
   \<Rightarrow> YogaAvailableSize \<Rightarrow> bridge \<Rightarrow> fault + bridge" where
  \<comment> \<open>The first argument is Yoga's solver, \<open>YGNodeCalculateLayout\<close>, on a live root.\<close>
  "yoga_calculate_layout YGNodeCalculateLayout handle available st =
     (let node = from_handle handle in
      if node = nullptr then Inr st
      else
        (let w = value_or_undefined (a_width available);
             h = value_or_undefined (a_height available)
         in case nodes st node of
              None \<Rightarrow> Inl Invalid_Pointer
            | Some n \<Rightarrow> Inr (YGNodeCalculateLayout node w h YGDirectionLTR st)))"

definition yoga_layout :: "bridge \<Rightarrow> YogaNodeHandle \<Rightarrow> fault + YogaLayout" where
  "yoga_layout st handle =
     (let node = from_handle handle in
      if node = nullptr then Inr (YogaLayout 0 0 0 0)
      else
        (case nodes st node of
           None \<Rightarrow> Inl Invalid_Pointer
         | Some n \<Rightarrow>
             Inr (YogaLayout (l_left (yg_layout n)) (l_top (yg_layout n))
                    (l_width (yg_layout n)) (l_height (yg_layout n)))))"

subsection \<open>Reading results; example values\<close>

definition and_then :: "fault + bridge \<Rightarrow> (bridge \<Rightarrow> fault + bridge) \<Rightarrow> fault + bridge" where
  \<comment> \<open>The next call of a sequence: nothing runs after a fault.\<close>
  "and_then r f = (case r of Inl e \<Rightarrow> Inl e | Inr st \<Rightarrow> f st)"

definition effective_style :: "fault + bridge \<Rightarrow> YGNodeRef \<Rightarrow> YGStyle option" where
  \<comment> \<open>The style Yoga holds for the node at \<open>p\<close> after a call.\<close>
  "effective_style r p = (case r of Inl e \<Rightarrow> None | Inr st \<Rightarrow> map_option yg_style (nodes st p))"

definition effective_border :: "fault + bridge \<Rightarrow> YGNodeRef \<Rightarrow> YGEdge \<Rightarrow> f32 option" where
  "effective_border r p edge = map_option (\<lambda>s. yg_border s edge) (effective_style r p)"

definition effective_gap :: "fault + bridge \<Rightarrow> YGNodeRef \<Rightarrow> YGGutter \<Rightarrow> f32 option" where
  "effective_gap r p gutter = map_option (\<lambda>s. yg_gap s gutter) (effective_style r p)"

definition effective_flex_grow :: "fault + bridge \<Rightarrow> YGNodeRef \<Rightarrow> f32 option" where
  "effective_flex_grow r p = map_option yg_flex_grow (effective_style r p)"

definition effective_flex_shrink :: "fault + bridge \<Rightarrow> YGNodeRef \<Rightarrow> f32 option" where
  "effective_flex_shrink r p = map_option yg_flex_shrink (effective_style r p)"

definition empty_bridge :: bridge where
  "empty_bridge = \<lparr>nodes = (\<lambda>_. None), drop_calls = []\<rparr>"

definition one_node :: bridge where
  \<comment> \<open>One fresh node, at address 1.\<close>
  "one_node = snd (yoga_create_node 1 empty_bridge)"

definition unset_value :: YogaValue where
  "unset_value = YogaValue 0 YogaValueUnit_Undefined"

definition unset_edges :: YogaEdges where
  "unset_edges =
     \<lparr>left = unset_value, top' = unset_value, right = unset_value, bottom = unset_value\<rparr>"

definition unset_size :: YogaSizeValue where
  "unset_size = \<lparr>width = unset_value, height = unset_value\<rparr>"

definition unset_style :: YogaStyle where
  \<comment> \<open>A style with every value undefined and no optional property present.\<close>
  "unset_style =
     \<lparr>display = YogaDisplay_Flex, position_type = YogaPositionType_Relative,
      overflow = YogaOverflow_Visible, flex_direction = YogaFlexDirection_Row,
      flex_wrap = YogaWrap_NoWrap, justify_content = YogaJustify_FlexStart,
      align_items = YogaAlign_Stretch, align_content = YogaAlign_FlexStart,
      align_self = YogaAlign_Auto, margin = unset_edges, padding = unset_edges,
      border = unset_edges, inset = unset_edges, size' = unset_size, min_size = unset_size,
      max_size = unset_size, has_flex_basis = False, flex_basis = unset_value,
      has_flex_grow = False, flex_grow = 0, has_flex_shrink = False, flex_shrink = 0,
      has_aspect_ratio = False, aspect_ratio = 0, gap = unset_size\<rparr>"

definition grown_style :: YogaStyle where
  \<comment> \<open>Flex-grow 2.0, flex-shrink 3.0 and a column gap of 10 points.\<close>
  "grown_style =
     unset_style\<lparr>has_flex_grow := True, flex_grow := 0x40000000,
                 has_flex_shrink := True, flex_shrink := 0x40400000,
                 gap := unset_size\<lparr>width := YogaValue 0x41200000 YogaValueUnit_Point\<rparr>\<rparr>"

definition auto_edges_style :: YogaStyle where
  \<comment> \<open>Left padding, top border and right inset of 5.0 with unit Auto.\<close>
  "auto_edges_style =
     unset_style\<lparr>padding := unset_edges\<lparr>left := YogaValue 0x40A00000 YogaValueUnit_Auto\<rparr>,
                 border := unset_edges\<lparr>top' := YogaValue 0x40A00000 YogaValueUnit_Auto\<rparr>,
                 inset := unset_edges\<lparr>right := YogaValue 0x40A00000 YogaValueUnit_Auto\<rparr>\<rparr>"

fun echo_measure :: "64 word \<Rightarrow> YogaMeasureInput \<Rightarrow> YogaMeasureInput \<Rightarrow> YogaSize" where
  \<comment> \<open>A measure callback whose answer tells the id, the two mode numbers and the two
      values it was given: the width is \<open>100 * id + 10 * width mode + height mode\<close>, the
      height is the sum of the bits of the two values.\<close>
  "echo_measure i (YogaMeasureInput w (YogaMeasureMode a)) (YogaMeasureInput h (YogaMeasureMode b)) =
     YogaSize (word_of_nat (100 * unat i + 10 * a + b)) (w + h)"

fun auto_to_undefined :: "YogaValue \<Rightarrow> YogaValue" where
  \<comment> \<open>The same magnitude with unit Undefined in place of Auto.\<close>
  "auto_to_undefined (YogaValue m YogaValueUnit_Auto) = YogaValue m YogaValueUnit_Undefined"
| "auto_to_undefined v = v"

definition edges_auto_to_undefined :: "YogaEdges \<Rightarrow> YogaEdges" where
  "edges_auto_to_undefined e =
     \<lparr>left = auto_to_undefined (left e), top' = auto_to_undefined (top' e),
      right = auto_to_undefined (right e), bottom = auto_to_undefined (bottom e)\<rparr>"

definition length_with_auto :: "YogaValue \<Rightarrow> YGValue" where
  \<comment> \<open>What \<open>apply_edge_value\<close> and \<open>apply_dimension\<close> store when given an auto setter.\<close>
  "length_with_auto v =
     (case v_unit v of
        YogaValueUnit_Percent \<Rightarrow> YGValue (v_value v) YGUnitPercent
      | YogaValueUnit_Point \<Rightarrow> YGValue (v_value v) YGUnitPoint
      | YogaValueUnit_Auto \<Rightarrow> YGValue YGUndefined YGUnitAuto
      | YogaValueUnit_Undefined \<Rightarrow> YGValue YGUndefined YGUnitPoint)"

definition length_no_auto :: "YogaValue \<Rightarrow> YGValue" where
  \<comment> \<open>What they store when the auto setter is null.\<close>
  "length_no_auto v =
     (case v_unit v of
        YogaValueUnit_Percent \<Rightarrow> YGValue (v_value v) YGUnitPercent
      | YogaValueUnit_Point \<Rightarrow> YGValue (v_value v) YGUnitPoint
      | YogaValueUnit_Auto \<Rightarrow> YGValue YGUndefined YGUnitPoint
      | YogaValueUnit_Undefined \<Rightarrow> YGValue YGUndefined YGUnitPoint)"

subsection \<open>Observations on the store; sequences of measure operations\<close>

definition live :: "bridge \<Rightarrow> YGNodeRef \<Rightarrow> bool" where
  "live st p = (nodes st p \<noteq> None)"

definition children_of :: "bridge \<Rightarrow> YGNodeRef \<Rightarrow> YGNodeRef list option" where
  "children_of st p = map_option yg_children (nodes st p)"

definition context_at :: "bridge \<Rightarrow> YGNodeRef \<Rightarrow> MeasureContext option" where
  \<comment> \<open>The measure context attached to the node at \<open>p\<close>, if there is a node and it has one.\<close>
  "context_at st p = (case nodes st p of None \<Rightarrow> None | Some n \<Rightarrow> yg_context n)"




definition attached_ids :: "bridge \<Rightarrow> 64 word multiset" where
  \<comment> \<open>The measurement ids attached to the nodes of the store, one per attachment.\<close>
  "attached_ids st =
     image_mset (\<lambda>p. ctx_id (the (context_at st p))) (mset_set {p. context_at st p \<noteq> None})"

definition ledger :: "bridge \<Rightarrow> 64 word multiset" where
  \<comment> \<open>The ids released so far together with the ids still attached.\<close>
  "ledger st = mset (drop_calls st) + attached_ids st"





definition released :: "bridge \<Rightarrow> bridge \<Rightarrow> bool" where
  \<comment> \<open>From \<open>st\<close> to \<open>st'\<close> the child lists are kept, contexts are only dropped, and the
      ledger is kept.\<close>
  "released st st' \<longleftrightarrow>
     children_of st' = children_of st
     \<and> (\<forall>p. context_at st' p = None \<or> context_at st' p = context_at st p)
     \<and> (finite {p. context_at st p \<noteq> None} \<longrightarrow>
          finite {p. context_at st' p \<noteq> None} \<and> ledger st' = ledger st)"

definition shrinks :: "bridge \<Rightarrow> bridge \<Rightarrow> bool" where
  \<comment> \<open>From \<open>st\<close> to \<open>st'\<close> no node appears, no context changes, no child list grows, and
      nothing is released.\<close>
  "shrinks st st' \<longleftrightarrow>
     drop_calls st' = drop_calls st
     \<and> (\<forall>p n'. nodes st' p = Some n' \<longrightarrow>
          (\<exists>n. nodes st p = Some n \<and> yg_context n' = yg_context n
               \<and> set (yg_children n') \<subseteq> set (yg_children n)))"







section \<open>Properties\<close>

subsection \<open>Auxiliary facts\<close>

lemmas yg_setters =
  YGNodeStyleSetDisplay_def YGNodeStyleSetPositionType_def YGNodeStyleSetOverflow_def
  YGNodeStyleSetFlexDirection_def YGNodeStyleSetFlexWrap_def YGNodeStyleSetJustifyContent_def
  YGNodeStyleSetAlignItems_def YGNodeStyleSetAlignContent_def YGNodeStyleSetAlignSelf_def
  YGNodeStyleSetMargin_def YGNodeStyleSetMarginPercent_def YGNodeStyleSetMarginAuto_def
  YGNodeStyleSetPadding_def YGNodeStyleSetPaddingPercent_def YGNodeStyleSetBorder_def
  YGNodeStyleSetPosition_def YGNodeStyleSetPositionPercent_def
  YGNodeStyleSetWidth_def YGNodeStyleSetWidthPercent_def YGNodeStyleSetWidthAuto_def
  YGNodeStyleSetHeight_def YGNodeStyleSetHeightPercent_def YGNodeStyleSetHeightAuto_def
  YGNodeStyleSetMinWidth_def YGNodeStyleSetMinWidthPercent_def
  YGNodeStyleSetMinHeight_def YGNodeStyleSetMinHeightPercent_def
  YGNodeStyleSetMaxWidth_def YGNodeStyleSetMaxWidthPercent_def
  YGNodeStyleSetMaxHeight_def YGNodeStyleSetMaxHeightPercent_def
  YGNodeStyleSetFlexBasis_def YGNodeStyleSetFlexBasisPercent_def YGNodeStyleSetFlexBasisAuto_def
  YGNodeStyleSetFlexGrow_def YGNodeStyleSetFlexShrink_def YGNodeStyleSetAspectRatio_def
  YGNodeStyleSetGap_def

lemma nodes_set_node [simp]:
  "nodes (set_node p f st) q = (if q = p then map_option f (nodes st p) else nodes st q)"
  by (simp add: set_node_def)

lemma drop_calls_set_node [simp]: "drop_calls (set_node p f st) = drop_calls st"
  by (simp add: set_node_def)

lemma apply_edge_value_margin:
  "apply_edge_value node edge v YGNodeStyleSetMargin YGNodeStyleSetMarginPercent
     (Some YGNodeStyleSetMarginAuto) = node\<lparr>yg_margin := (yg_margin node)(edge := length_with_auto v)\<rparr>"
  by (simp add: apply_edge_value_def length_with_auto_def yg_setters split: YogaValueUnit.splits)

lemma apply_edge_value_padding:
  "apply_edge_value node edge v YGNodeStyleSetPadding YGNodeStyleSetPaddingPercent None
     = node\<lparr>yg_padding := (yg_padding node)(edge := length_no_auto v)\<rparr>"
  by (simp add: apply_edge_value_def length_no_auto_def yg_setters split: YogaValueUnit.splits)

lemma apply_edge_value_position:
  "apply_edge_value node edge v YGNodeStyleSetPosition YGNodeStyleSetPositionPercent None
     = node\<lparr>yg_position := (yg_position node)(edge := length_no_auto v)\<rparr>"
  by (simp add: apply_edge_value_def length_no_auto_def yg_setters split: YogaValueUnit.splits)

lemma apply_dimension_fields:
  "apply_dimension node v YGNodeStyleSetWidth YGNodeStyleSetWidthPercent (Some YGNodeStyleSetWidthAuto)
     = node\<lparr>yg_width := length_with_auto v\<rparr>"
  "apply_dimension node v YGNodeStyleSetHeight YGNodeStyleSetHeightPercent (Some YGNodeStyleSetHeightAuto)
     = node\<lparr>yg_height := length_with_auto v\<rparr>"
  "apply_dimension node v YGNodeStyleSetMinWidth YGNodeStyleSetMinWidthPercent None
     = node\<lparr>yg_min_width := length_no_auto v\<rparr>"
  "apply_dimension node v YGNodeStyleSetMinHeight YGNodeStyleSetMinHeightPercent None
     = node\<lparr>yg_min_height := length_no_auto v\<rparr>"
  "apply_dimension node v YGNodeStyleSetMaxWidth YGNodeStyleSetMaxWidthPercent None
     = node\<lparr>yg_max_width := length_no_auto v\<rparr>"
  "apply_dimension node v YGNodeStyleSetMaxHeight YGNodeStyleSetMaxHeightPercent None
     = node\<lparr>yg_max_height := length_no_auto v\<rparr>"
  "apply_dimension node v YGNodeStyleSetFlexBasis YGNodeStyleSetFlexBasisPercent (Some YGNodeStyleSetFlexBasisAuto)
     = node\<lparr>yg_flex_basis := length_with_auto v\<rparr>"
  by (simp_all add: apply_dimension_def length_with_auto_def length_no_auto_def yg_setters
      split: YogaValueUnit.splits)

lemma conditional_setters:
  "(if b then node\<lparr>yg_flex_basis := x\<rparr> else YGNodeStyleSetFlexBasisAuto node)
     = node\<lparr>yg_flex_basis := (if b then x else YGValue YGUndefined YGUnitAuto)\<rparr>"
  "(if b then YGNodeStyleSetFlexGrow node g else node)
     = node\<lparr>yg_flex_grow := (if b then g else yg_flex_grow node)\<rparr>"
  "(if b then YGNodeStyleSetFlexShrink node g else node)
     = node\<lparr>yg_flex_shrink := (if b then g else yg_flex_shrink node)\<rparr>"
  "(if b then YGNodeStyleSetAspectRatio node r else YGNodeStyleSetAspectRatio node r')
     = node\<lparr>yg_aspect_ratio := (if b then r else r')\<rparr>"
  "(if b then YGNodeStyleSetGap node gutter l else node)
     = node\<lparr>yg_gap := (yg_gap node)(gutter := (if b then l else yg_gap node gutter))\<rparr>"
  by (simp_all add: yg_setters)

lemmas apply_style_unfold =
  apply_style_def apply_edge_value_margin apply_edge_value_padding
  apply_edge_value_position apply_dimension_fields conditional_setters yg_setters

lemma length_no_auto_degrade: "length_no_auto (auto_to_undefined v) = length_no_auto v"
  by (cases v rule: auto_to_undefined.cases) (simp_all add: length_no_auto_def)

lemma v_value_auto_to_undefined: "v_value (auto_to_undefined v) = v_value v"
  by (cases v rule: auto_to_undefined.cases) simp_all

lemma apply_style_degrade:
  "apply_style node (style\<lparr>padding := edges_auto_to_undefined (padding style),
       border := edges_auto_to_undefined (border style),
       inset := edges_auto_to_undefined (inset style)\<rparr>) = apply_style node style"
  by (simp add: apply_style_unfold edges_auto_to_undefined_def length_no_auto_degrade
      v_value_auto_to_undefined)

lemma apply_style_padding:
  "yg_padding (apply_style node style) YGEdgeLeft = length_no_auto (left (padding style))"
  "yg_padding (apply_style node style) YGEdgeTop = length_no_auto (top' (padding style))"
  "yg_padding (apply_style node style) YGEdgeRight = length_no_auto (right (padding style))"
  "yg_padding (apply_style node style) YGEdgeBottom = length_no_auto (bottom (padding style))"
  by (simp_all add: apply_style_unfold)

lemma apply_style_position:
  "yg_position (apply_style node style) YGEdgeLeft = length_no_auto (left (inset style))"
  "yg_position (apply_style node style) YGEdgeTop = length_no_auto (top' (inset style))"
  "yg_position (apply_style node style) YGEdgeRight = length_no_auto (right (inset style))"
  "yg_position (apply_style node style) YGEdgeBottom = length_no_auto (bottom (inset style))"
  by (simp_all add: apply_style_unfold)

lemma apply_style_border:
  "yg_border (apply_style node style) YGEdgeLeft = v_value (left (border style))"
  "yg_border (apply_style node style) YGEdgeTop = v_value (top' (border style))"
  "yg_border (apply_style node style) YGEdgeRight = v_value (right (border style))"
  "yg_border (apply_style node style) YGEdgeBottom = v_value (bottom (border style))"
  by (simp_all add: apply_style_unfold)

lemma apply_style_gap:
  "yg_gap (apply_style node style) YGGutterColumn =
     (if v_unit (width (gap style)) \<noteq> YogaValueUnit_Undefined
      then yg_value (to_yg_value (width (gap style))) else yg_gap node YGGutterColumn)"
  "yg_gap (apply_style node style) YGGutterRow =
     (if v_unit (height (gap style)) \<noteq> YogaValueUnit_Undefined
      then yg_value (to_yg_value (height (gap style))) else yg_gap node YGGutterRow)"
  by (simp_all add: apply_style_unfold)

lemma apply_style_flex:
  "yg_flex_grow (apply_style node style) =
     (if has_flex_grow style then flex_grow style else yg_flex_grow node)"
  "yg_flex_shrink (apply_style node style) =
     (if has_flex_shrink style then flex_shrink style else yg_flex_shrink node)"
  by (simp_all add: apply_style_unfold)

lemma yoga_set_style_live:
  "from_handle handle \<noteq> nullptr \<Longrightarrow> nodes st (from_handle handle) = Some n \<Longrightarrow>
   effective_style (yoga_set_style handle style st) (from_handle handle)
     = Some (apply_style (yg_style n) style)"
  by (simp add: effective_style_def yoga_set_style_def)

lemma one_node_nodes: "nodes one_node = (\<lambda>p. if p = 1 then Some YGNodeNew else None)"
  by (auto simp add: one_node_def yoga_create_node_def empty_bridge_def)

lemma one_node_drop_calls: "drop_calls one_node = []"
  by (simp add: one_node_def yoga_create_node_def empty_bridge_def)

lemma clear_measure_live:
  assumes "from_handle handle \<noteq> nullptr" and "nodes st (from_handle handle) = Some n"
  shows "yoga_clear_measure handle st =
     Inr (st\<lparr>nodes := (nodes st)(from_handle handle \<mapsto>
                 n\<lparr>yg_context := None, yg_has_measure_func := False\<rparr>),
             drop_calls := drop_calls st
                @ (case yg_context n of None \<Rightarrow> [] | Some ctx \<Rightarrow> [ctx_id ctx])\<rparr>)"
  using assms
  by (auto simp add: yoga_clear_measure_def Let_def YGNodeSetMeasureFunc_def
      drop_measure_context_def YGNodeGetContext_def YGNodeSetContext_def set_node_def fun_eq_iff
      split: option.splits)

lemma set_measure_live:
  assumes "from_handle handle \<noteq> nullptr" and "nodes st (from_handle handle) = Some n"
    and "measure_id \<noteq> 0"
  shows "yoga_set_measure handle measure_id st =
     Inr (st\<lparr>nodes := (nodes st)(from_handle handle \<mapsto>
                 n\<lparr>yg_context := Some (MeasureContext measure_id), yg_has_measure_func := True\<rparr>),
             drop_calls := drop_calls st
                @ (case yg_context n of None \<Rightarrow> [] | Some ctx \<Rightarrow> [ctx_id ctx])\<rparr>)"
  using assms
  by (auto simp add: yoga_set_measure_def Let_def YGNodeSetMeasureFunc_def
      drop_measure_context_def YGNodeGetContext_def YGNodeSetContext_def set_node_def fun_eq_iff
      split: option.splits)





lemma live_set_node [simp]: "live (set_node p f st) = live st"
  by (auto simp add: live_def fun_eq_iff)






lemma released_refl [simp]: "released st st"
  by (simp add: released_def)





lemma attached_ids_cong:
  "context_at st' = context_at st \<Longrightarrow> attached_ids st' = attached_ids st"
  by (simp add: attached_ids_def)










lemma shrinks_refl [simp]: "shrinks st st"
  by (simp add: shrinks_def)














































subsection \<open>Handles that resolve to no node\<close>

text \<open>
  C1, as the code has it. The only handle the bridge recognises as resolving to no node is
  the null handle, \<open>raw = 0\<close>: each of the eight operations returns at once on it and
  leaves the store as it was, and \<open>yoga_layout\<close> answers with the zero layout
  \<open>{0, 0, 0, 0}\<close>.
\<close>

theorem null_handle_is_noop:
  "yoga_free_node fuel (YogaNodeHandle 0) st = Inr st
   \<and> yoga_set_style (YogaNodeHandle 0) style st = Inr st
   \<and> yoga_set_children (YogaNodeHandle 0) children st = Inr st
   \<and> yoga_mark_dirty mark (YogaNodeHandle 0) st = Inr st
   \<and> yoga_set_measure (YogaNodeHandle 0) measure_id st = Inr st
   \<and> yoga_clear_measure (YogaNodeHandle 0) st = Inr st
   \<and> yoga_calculate_layout solve (YogaNodeHandle 0) available st = Inr st
   \<and> yoga_layout st (YogaNodeHandle 0) = Inr (YogaLayout 0 0 0 0)"
  by (simp add: yoga_free_node_def yoga_set_style_def yoga_set_children_def yoga_mark_dirty_def
      yoga_set_measure_def yoga_clear_measure_def yoga_calculate_layout_def yoga_layout_def
      from_handle_def)

text \<open>The null handle on a store that holds a node: the node stays.\<close>

theorem null_handle_is_noop_witness:
  "yoga_free_node 0 (YogaNodeHandle 0) one_node = Inr one_node
   \<and> yoga_set_children (YogaNodeHandle 0) [YogaNodeHandle 1] one_node = Inr one_node
   \<and> yoga_set_measure (YogaNodeHandle 0) 7 one_node = Inr one_node
   \<and> yoga_layout one_node (YogaNodeHandle 0) = Inr (YogaLayout 0 0 0 0)"
  using null_handle_is_noop [where fuel = 0 and st = one_node
      and children = "[YogaNodeHandle 1]" and measure_id = 7]
  by simp

text \<open>
  C1 as the spec states it fails for a destroyed handle. Node 1 is created and freed;
  its handle then resolves to no live node, it is not the null handle, and the bridge
  passes the dangling pointer on to Yoga: \<open>yoga_layout\<close> does not return the zero layout,
  \<open>yoga_set_style\<close> and \<open>yoga_set_measure\<close> are no no-ops.
\<close>

theorem stale_handle_faults:
  "yoga_free_node (Suc (Suc 0)) (YogaNodeHandle 1) one_node = Inr empty_bridge
   \<and> yoga_layout empty_bridge (YogaNodeHandle 1) = Inl Invalid_Pointer
   \<and> yoga_set_style (YogaNodeHandle 1) unset_style empty_bridge = Inl Invalid_Pointer
   \<and> yoga_set_measure (YogaNodeHandle 1) 7 empty_bridge = Inl Invalid_Pointer"
proof -
  have "yoga_free_node (Suc (Suc 0)) (YogaNodeHandle 1) one_node = Inr empty_bridge"
    by (simp add: yoga_free_node_def one_node_def yoga_create_node_def empty_bridge_def
        from_handle_def to_handle_def drop_measure_context_def YGNodeGetContext_def YGNodeNew_def
        YGNodeGetChildCount_def YGNodeFree_def)
  moreover have "yoga_layout empty_bridge (YogaNodeHandle 1) = Inl Invalid_Pointer"
    by (simp add: yoga_layout_def empty_bridge_def from_handle_def)
  moreover have "yoga_set_style (YogaNodeHandle 1) unset_style empty_bridge = Inl Invalid_Pointer"
    by (simp add: yoga_set_style_def empty_bridge_def from_handle_def)
  moreover have "yoga_set_measure (YogaNodeHandle 1) 7 empty_bridge = Inl Invalid_Pointer"
    by (simp add: yoga_set_measure_def empty_bridge_def from_handle_def drop_measure_context_def
        YGNodeGetContext_def)
  ultimately show ?thesis by simp
qed

subsection \<open>Styles\<close>

text \<open>
  C3 at a failing input. Node 1 is styled with flex-grow 2.0, flex-shrink 3.0 and a column
  gap of 10, then with a style that has no flex-grow, no flex-shrink and an undefined gap.
  The three values of the first style survive, whereas the second style alone on a fresh
  node leaves all three undefined: the second call did not replace the style wholesale.
\<close>

theorem restyle_keeps_flex_grow:
  "effective_flex_grow
     (and_then (yoga_set_style (YogaNodeHandle 1) grown_style one_node)
        (yoga_set_style (YogaNodeHandle 1) unset_style)) 1 = Some 0x40000000
   \<and> effective_flex_shrink
     (and_then (yoga_set_style (YogaNodeHandle 1) grown_style one_node)
        (yoga_set_style (YogaNodeHandle 1) unset_style)) 1 = Some 0x40400000
   \<and> effective_gap
     (and_then (yoga_set_style (YogaNodeHandle 1) grown_style one_node)
        (yoga_set_style (YogaNodeHandle 1) unset_style)) 1 YGGutterColumn = Some 0x41200000
   \<and> effective_flex_grow (yoga_set_style (YogaNodeHandle 1) unset_style one_node) 1
       = Some YGUndefined
   \<and> effective_flex_shrink (yoga_set_style (YogaNodeHandle 1) unset_style one_node) 1
       = Some YGUndefined
   \<and> effective_gap (yoga_set_style (YogaNodeHandle 1) unset_style one_node) 1 YGGutterColumn
       = Some YGUndefined"
  by (simp add: effective_flex_grow_def effective_flex_shrink_def effective_gap_def
      effective_style_def and_then_def yoga_set_style_def from_handle_def one_node_nodes
      apply_style_flex apply_style_gap grown_style_def unset_style_def unset_size_def
      unset_value_def YGNodeNew_def YGStyle_default_def)

text \<open>
  C4, as the code has it. Replacing unit Auto by unit Undefined, with the same magnitude,
  on every padding, border and inset edge of a style does not change what
  \<open>yoga_set_style\<close> does. On a live node, a padding or inset edge with unit Auto is
  set to an undefined length, and the magnitude is not applied. A border edge is set to
  the magnitude of its value, whatever the unit: for borders the unit is not read.
\<close>

theorem auto_edges:
  "yoga_set_style handle
      (style\<lparr>padding := edges_auto_to_undefined (padding style),
             border := edges_auto_to_undefined (border style),
             inset := edges_auto_to_undefined (inset style)\<rparr>) st
     = yoga_set_style handle style st
   \<and> (from_handle handle \<noteq> nullptr \<and> nodes st (from_handle handle) \<noteq> None \<longrightarrow>
        (\<exists>s. effective_style (yoga_set_style handle style st) (from_handle handle) = Some s
           \<and> (v_unit (left (padding style)) = YogaValueUnit_Auto \<longrightarrow>
                 yg_padding s YGEdgeLeft = YGValue YGUndefined YGUnitPoint)
           \<and> (v_unit (top' (padding style)) = YogaValueUnit_Auto \<longrightarrow>
                 yg_padding s YGEdgeTop = YGValue YGUndefined YGUnitPoint)
           \<and> (v_unit (right (padding style)) = YogaValueUnit_Auto \<longrightarrow>
                 yg_padding s YGEdgeRight = YGValue YGUndefined YGUnitPoint)
           \<and> (v_unit (bottom (padding style)) = YogaValueUnit_Auto \<longrightarrow>
                 yg_padding s YGEdgeBottom = YGValue YGUndefined YGUnitPoint)
           \<and> (v_unit (left (inset style)) = YogaValueUnit_Auto \<longrightarrow>
                 yg_position s YGEdgeLeft = YGValue YGUndefined YGUnitPoint)
           \<and> (v_unit (top' (inset style)) = YogaValueUnit_Auto \<longrightarrow>
                 yg_position s YGEdgeTop = YGValue YGUndefined YGUnitPoint)
           \<and> (v_unit (right (inset style)) = YogaValueUnit_Auto \<longrightarrow>
                 yg_position s YGEdgeRight = YGValue YGUndefined YGUnitPoint)
           \<and> (v_unit (bottom (inset style)) = YogaValueUnit_Auto \<longrightarrow>
                 yg_position s YGEdgeBottom = YGValue YGUndefined YGUnitPoint)
           \<and> yg_border s YGEdgeLeft = v_value (left (border style))
           \<and> yg_border s YGEdgeTop = v_value (top' (border style))
           \<and> yg_border s YGEdgeRight = v_value (right (border style))
           \<and> yg_border s YGEdgeBottom = v_value (bottom (border style))))"
proof -
  have eq: "yoga_set_style handle
      (style\<lparr>padding := edges_auto_to_undefined (padding style),
             border := edges_auto_to_undefined (border style),
             inset := edges_auto_to_undefined (inset style)\<rparr>) st
     = yoga_set_style handle style st"
    unfolding yoga_set_style_def apply_style_degrade ..
  have fields: "\<exists>s. effective_style (yoga_set_style handle style st) (from_handle handle) = Some s
           \<and> (v_unit (left (padding style)) = YogaValueUnit_Auto \<longrightarrow>
                 yg_padding s YGEdgeLeft = YGValue YGUndefined YGUnitPoint)
           \<and> (v_unit (top' (padding style)) = YogaValueUnit_Auto \<longrightarrow>
                 yg_padding s YGEdgeTop = YGValue YGUndefined YGUnitPoint)
           \<and> (v_unit (right (padding style)) = YogaValueUnit_Auto \<longrightarrow>
                 yg_padding s YGEdgeRight = YGValue YGUndefined YGUnitPoint)
           \<and> (v_unit (bottom (padding style)) = YogaValueUnit_Auto \<longrightarrow>
                 yg_padding s YGEdgeBottom = YGValue YGUndefined YGUnitPoint)
           \<and> (v_unit (left (inset style)) = YogaValueUnit_Auto \<longrightarrow>
                 yg_position s YGEdgeLeft = YGValue YGUndefined YGUnitPoint)
           \<and> (v_unit (top' (inset style)) = YogaValueUnit_Auto \<longrightarrow>
                 yg_position s YGEdgeTop = YGValue YGUndefined YGUnitPoint)
           \<and> (v_unit (right (inset style)) = YogaValueUnit_Auto \<longrightarrow>
                 yg_position s YGEdgeRight = YGValue YGUndefined YGUnitPoint)
           \<and> (v_unit (bottom (inset style)) = YogaValueUnit_Auto \<longrightarrow>
                 yg_position s YGEdgeBottom = YGValue YGUndefined YGUnitPoint)
           \<and> yg_border s YGEdgeLeft = v_value (left (border style))
           \<and> yg_border s YGEdgeTop = v_value (top' (border style))
           \<and> yg_border s YGEdgeRight = v_value (right (border style))
           \<and> yg_border s YGEdgeBottom = v_value (bottom (border style))"
    if "from_handle handle \<noteq> nullptr" "nodes st (from_handle handle) \<noteq> None"
  proof -
    from that obtain n where n: "nodes st (from_handle handle) = Some n" by auto
    show ?thesis
      unfolding yoga_set_style_live [OF that(1) n]
      by (simp add: apply_style_padding apply_style_position apply_style_border
          length_no_auto_def)
  qed
  from eq fields show ?thesis by blast
qed

text \<open>
  On node 1, a style with left padding, top border and right inset of 5.0 Auto: the
  padding and the inset become undefined lengths, the border becomes 5.0.
\<close>

theorem auto_edges_witness:
  "\<exists>s. effective_style (yoga_set_style (YogaNodeHandle 1) auto_edges_style one_node) 1 = Some s
      \<and> yg_padding s YGEdgeLeft = YGValue YGUndefined YGUnitPoint
      \<and> yg_position s YGEdgeRight = YGValue YGUndefined YGUnitPoint
      \<and> yg_border s YGEdgeTop = 0x40A00000"
  using auto_edges [of "YogaNodeHandle 1" auto_edges_style one_node]
  by (auto simp add: from_handle_def one_node_nodes auto_edges_style_def unset_edges_def)

text \<open>
  C4 as the spec states it fails on a border edge: the magnitude of a border value with
  unit Auto is applied. A left border of 5.0 Auto on node 1 gives an effective left border
  of 5.0.
\<close>

theorem auto_border_applies_magnitude:
  "effective_border
     (yoga_set_style (YogaNodeHandle 1)
        (unset_style\<lparr>border := unset_edges\<lparr>left := YogaValue 0x40A00000 YogaValueUnit_Auto\<rparr>\<rparr>)
        one_node)
     1 YGEdgeLeft = Some 0x40A00000"
  by (simp add: effective_border_def effective_style_def yoga_set_style_def from_handle_def
      one_node_nodes apply_style_border)

text \<open>
  C5, as the code has it. On a live node, a gap value of unit Auto is written to the
  node's gap as 0, and a gap value of unit Point or Percent is written as its magnitude.
  A gap value of unit Undefined is skipped: the node keeps the gap it had.
  \<open>gap.width\<close> goes to the column gap and \<open>gap.height\<close> to the row gap.
\<close>

theorem gap_units:
  assumes "from_handle handle \<noteq> nullptr" and "nodes st (from_handle handle) = Some n"
  shows "(v_unit (width (gap style)) \<noteq> YogaValueUnit_Undefined \<longrightarrow>
            effective_gap (yoga_set_style handle style st) (from_handle handle) YGGutterColumn
              = Some (if v_unit (width (gap style)) = YogaValueUnit_Auto then 0
                      else v_value (width (gap style))))
       \<and> (v_unit (height (gap style)) \<noteq> YogaValueUnit_Undefined \<longrightarrow>
            effective_gap (yoga_set_style handle style st) (from_handle handle) YGGutterRow
              = Some (if v_unit (height (gap style)) = YogaValueUnit_Auto then 0
                      else v_value (height (gap style))))
       \<and> (v_unit (width (gap style)) = YogaValueUnit_Undefined \<longrightarrow>
            effective_gap (yoga_set_style handle style st) (from_handle handle) YGGutterColumn
              = Some (yg_gap (yg_style n) YGGutterColumn))
       \<and> (v_unit (height (gap style)) = YogaValueUnit_Undefined \<longrightarrow>
            effective_gap (yoga_set_style handle style st) (from_handle handle) YGGutterRow
              = Some (yg_gap (yg_style n) YGGutterRow))"
proof -
  have v: "v_unit v \<noteq> YogaValueUnit_Undefined \<Longrightarrow>
      yg_value (to_yg_value v) = (if v_unit v = YogaValueUnit_Auto then 0 else v_value v)" for v
    by (cases v rule: to_yg_value.cases) simp_all
  show ?thesis
    unfolding effective_gap_def yoga_set_style_live [OF assms]
    by (simp add: apply_style_gap v)
qed

text \<open>
  A gap of 10 percent wide and 10 Auto high on node 1: column gap 10.0, row gap 0. An
  unset gap on a node whose column gap is 10.0: the column gap stays 10.0, the row gap
  stays undefined.
\<close>

theorem gap_units_witness:
  "effective_gap
     (yoga_set_style (YogaNodeHandle 1)
        (unset_style\<lparr>gap := \<lparr>width = YogaValue 0x41200000 YogaValueUnit_Percent,
                               height = YogaValue 0x41200000 YogaValueUnit_Auto\<rparr>\<rparr>) one_node)
     1 YGGutterColumn = Some 0x41200000
   \<and> effective_gap
     (yoga_set_style (YogaNodeHandle 1)
        (unset_style\<lparr>gap := \<lparr>width = YogaValue 0x41200000 YogaValueUnit_Percent,
                               height = YogaValue 0x41200000 YogaValueUnit_Auto\<rparr>\<rparr>) one_node)
     1 YGGutterRow = Some 0
   \<and> effective_gap
     (yoga_set_style (YogaNodeHandle 1) unset_style
        (set_node 1 (\<lambda>n. n\<lparr>yg_style := YGNodeStyleSetGap (yg_style n) YGGutterColumn 0x41200000\<rparr>)
           one_node))
     1 YGGutterColumn = Some 0x41200000
   \<and> effective_gap
     (yoga_set_style (YogaNodeHandle 1) unset_style
        (set_node 1 (\<lambda>n. n\<lparr>yg_style := YGNodeStyleSetGap (yg_style n) YGGutterColumn 0x41200000\<rparr>)
           one_node))
     1 YGGutterRow = Some YGUndefined"
  using gap_units [of "YogaNodeHandle 1" one_node YGNodeNew
      "unset_style\<lparr>gap := \<lparr>width = YogaValue 0x41200000 YogaValueUnit_Percent,
                               height = YogaValue 0x41200000 YogaValueUnit_Auto\<rparr>\<rparr>"]
    gap_units [of "YogaNodeHandle 1"
      "set_node 1 (\<lambda>n. n\<lparr>yg_style := YGNodeStyleSetGap (yg_style n) YGGutterColumn 0x41200000\<rparr>)
           one_node"
      "YGNodeNew\<lparr>yg_style := YGNodeStyleSetGap YGStyle_default YGGutterColumn 0x41200000\<rparr>"
      unset_style]
  by (simp add: from_handle_def one_node_nodes YGNodeStyleSetGap_def unset_style_def
      unset_size_def unset_value_def YGNodeNew_def YGStyle_default_def)

text \<open>
  C5 as the spec states it fails for unit Auto: on a fresh node, a gap width of unit Auto
  sets the column gap to 0, while a gap width of unit Undefined leaves it undefined.
\<close>

theorem auto_gap_is_zero_not_unset:
  "effective_gap
     (yoga_set_style (YogaNodeHandle 1)
        (unset_style\<lparr>gap := unset_size\<lparr>width := YogaValue 0x41200000 YogaValueUnit_Auto\<rparr>\<rparr>)
        one_node)
     1 YGGutterColumn = Some 0
   \<and> effective_gap
     (yoga_set_style (YogaNodeHandle 1)
        (unset_style\<lparr>gap := unset_size\<lparr>width := YogaValue 0x41200000 YogaValueUnit_Undefined\<rparr>\<rparr>)
        one_node)
     1 YGGutterColumn = Some YGUndefined
   \<and> YGUndefined \<noteq> 0"
  by (simp add: effective_gap_def effective_style_def yoga_set_style_def from_handle_def
      one_node_nodes apply_style_gap unset_size_def unset_value_def YGNodeNew_def
      YGStyle_default_def YGUndefined_def)

subsection \<open>Measuring\<close>

text \<open>
  C9. On every store, \<open>measure_proxy\<close> on a node with a measure context calls
  \<open>yoga_measure\<close> with the id of that context, with the width and the height it was
  given, and with modes of the same numbers as the modes it was given, and returns the
  width and height \<open>yoga_measure\<close> answers. After \<open>yoga_set_measure\<close> has attached a
  non-zero id to a live node, the node's measure function is \<open>measure_proxy\<close> and its
  context holds that id, so the id passed is the id that was attached. On a node without
  a measure context \<open>measure_proxy\<close> returns \<open>{0, 0}\<close>.
\<close>

theorem measure_proxy_passes_id:
  "(nodes st node = Some n \<longrightarrow> yg_context n = Some ctx \<longrightarrow>
      measure_proxy yoga_measure st node w wm h hm =
        Inr (YGSize
              (s_width (yoga_measure (ctx_id ctx)
                 (YogaMeasureInput w (YogaMeasureMode (YGMeasureMode_number wm)))
                 (YogaMeasureInput h (YogaMeasureMode (YGMeasureMode_number hm)))))
              (s_height (yoga_measure (ctx_id ctx)
                 (YogaMeasureInput w (YogaMeasureMode (YGMeasureMode_number wm)))
                 (YogaMeasureInput h (YogaMeasureMode (YGMeasureMode_number hm)))))))
   \<and> (from_handle handle \<noteq> nullptr \<longrightarrow> nodes st (from_handle handle) = Some n \<longrightarrow>
       measure_id \<noteq> 0 \<longrightarrow>
        (\<exists>st' n'. yoga_set_measure handle measure_id st = Inr st'
           \<and> nodes st' (from_handle handle) = Some n'
           \<and> yg_has_measure_func n'
           \<and> yg_context n' = Some (MeasureContext measure_id)
           \<and> measure_proxy yoga_measure st' (from_handle handle) w wm h hm =
               Inr (YGSize
                     (s_width (yoga_measure measure_id
                        (YogaMeasureInput w (YogaMeasureMode (YGMeasureMode_number wm)))
                        (YogaMeasureInput h (YogaMeasureMode (YGMeasureMode_number hm)))))
                     (s_height (yoga_measure measure_id
                        (YogaMeasureInput w (YogaMeasureMode (YGMeasureMode_number wm)))
                        (YogaMeasureInput h (YogaMeasureMode (YGMeasureMode_number hm))))))))
   \<and> (nodes st node = Some n \<longrightarrow> yg_context n = None \<longrightarrow>
        measure_proxy yoga_measure st node w wm h hm = Inr (YGSize 0 0))"
proof -
  have any: "measure_proxy yoga_measure s p w wm h hm =
        Inr (YGSize
              (s_width (yoga_measure (ctx_id c)
                 (YogaMeasureInput w (YogaMeasureMode (YGMeasureMode_number wm)))
                 (YogaMeasureInput h (YogaMeasureMode (YGMeasureMode_number hm)))))
              (s_height (yoga_measure (ctx_id c)
                 (YogaMeasureInput w (YogaMeasureMode (YGMeasureMode_number wm)))
                 (YogaMeasureInput h (YogaMeasureMode (YGMeasureMode_number hm))))))"
    if "nodes s p = Some m" "yg_context m = Some c" for s p m c
    using that
    by (simp add: measure_proxy_def YGNodeGetContext_def Let_def static_cast_YogaMeasureMode_def)
  have none: "measure_proxy yoga_measure st node w wm h hm = Inr (YGSize 0 0)"
    if "nodes st node = Some n" "yg_context n = None"
    using that by (simp add: measure_proxy_def YGNodeGetContext_def)
  have attach: "\<exists>st' n'. yoga_set_measure handle measure_id st = Inr st'
           \<and> nodes st' (from_handle handle) = Some n'
           \<and> yg_has_measure_func n'
           \<and> yg_context n' = Some (MeasureContext measure_id)
           \<and> measure_proxy yoga_measure st' (from_handle handle) w wm h hm =
               Inr (YGSize
                     (s_width (yoga_measure measure_id
                        (YogaMeasureInput w (YogaMeasureMode (YGMeasureMode_number wm)))
                        (YogaMeasureInput h (YogaMeasureMode (YGMeasureMode_number hm)))))
                     (s_height (yoga_measure measure_id
                        (YogaMeasureInput w (YogaMeasureMode (YGMeasureMode_number wm)))
                        (YogaMeasureInput h (YogaMeasureMode (YGMeasureMode_number hm))))))"
    if h: "from_handle handle \<noteq> nullptr" "nodes st (from_handle handle) = Some n"
      "measure_id \<noteq> 0"
  proof -
    let ?n' = "n\<lparr>yg_context := Some (MeasureContext measure_id), yg_has_measure_func := True\<rparr>"
    let ?st' = "st\<lparr>nodes := (nodes st)(from_handle handle \<mapsto> ?n'),
             drop_calls := drop_calls st
                @ (case yg_context n of None \<Rightarrow> [] | Some ctx \<Rightarrow> [ctx_id ctx])\<rparr>"
    have run: "yoga_set_measure handle measure_id st = Inr ?st'"
      by (rule set_measure_live [OF h])
    have lk: "nodes ?st' (from_handle handle) = Some ?n'" by simp
    have cx: "yg_context ?n' = Some (MeasureContext measure_id)" by simp
    from any [OF lk cx] run lk show ?thesis by simp
  qed
  from any none attach show ?thesis by blast
qed

text \<open>
  Id 7 attached to node 1 and measured with width 1.0 at most (mode 2) and height 2.0
  exactly (mode 1): the callback has seen id 7 and the modes 2 and 1. Before the
  attachment the node measures as \<open>{0, 0}\<close>.
\<close>

theorem measure_proxy_passes_id_witness:
  "measure_proxy echo_measure
      (projr (yoga_set_measure (YogaNodeHandle 1) 7 one_node)) 1
      0x3F800000 YGMeasureModeAtMost 0x40000000 YGMeasureModeExactly
     = Inr (YGSize 721 0x7F800000)
   \<and> measure_proxy echo_measure one_node 1
      0x3F800000 YGMeasureModeAtMost 0x40000000 YGMeasureModeExactly
     = Inr (YGSize 0 0)"
  using measure_proxy_passes_id [of one_node 1 YGNodeNew "MeasureContext 0" echo_measure
      "0x3F800000" YGMeasureModeAtMost "0x40000000" YGMeasureModeExactly "YogaNodeHandle 1" 7]
    measure_proxy_passes_id [of "projr (yoga_set_measure (YogaNodeHandle 1) 7 one_node)" 1
      "YGNodeNew\<lparr>yg_context := Some (MeasureContext 7), yg_has_measure_func := True\<rparr>"
      "MeasureContext 7" echo_measure
      "0x3F800000" YGMeasureModeAtMost "0x40000000" YGMeasureModeExactly "YogaNodeHandle 0" 0]
  by (auto simp add: set_measure_live [of "YogaNodeHandle 1" one_node YGNodeNew 7]
      from_handle_def one_node_nodes YGNodeNew_def)

text \<open>
  C10. \<open>yoga_clear_measure\<close> on a handle does what \<open>yoga_set_measure\<close> does with id 0
  on that handle, on every store. On a live node both remove the measure function, leave
  the node without measure context, and call \<open>yoga_drop_measure\<close> once with the id that
  was attached, if one was.
\<close>

theorem clear_measure_is_set_measure_zero:
  "yoga_clear_measure handle st = yoga_set_measure handle 0 st
   \<and> (from_handle handle \<noteq> nullptr \<longrightarrow> nodes st (from_handle handle) = Some n \<longrightarrow>
        yoga_set_measure handle 0 st =
          Inr (st\<lparr>nodes := (nodes st)(from_handle handle \<mapsto>
                      n\<lparr>yg_context := None, yg_has_measure_func := False\<rparr>),
                  drop_calls := drop_calls st
                     @ (case yg_context n of None \<Rightarrow> [] | Some ctx \<Rightarrow> [ctx_id ctx])\<rparr>))"
proof -
  have "yoga_clear_measure handle st = yoga_set_measure handle 0 st"
    by (simp add: yoga_clear_measure_def yoga_set_measure_def Let_def)
  then show ?thesis
    using clear_measure_live [of handle st n] by simp
qed

text \<open>Id 7 is attached to node 1; either call then releases 7 once and detaches it.\<close>

theorem clear_measure_is_set_measure_zero_witness:
  "yoga_clear_measure (YogaNodeHandle 1) (projr (yoga_set_measure (YogaNodeHandle 1) 7 one_node))
     = yoga_set_measure (YogaNodeHandle 1) 0 (projr (yoga_set_measure (YogaNodeHandle 1) 7 one_node))
   \<and> map_option drop_calls
        (case yoga_set_measure (YogaNodeHandle 1) 0
                (projr (yoga_set_measure (YogaNodeHandle 1) 7 one_node)) of
           Inl e \<Rightarrow> None | Inr st \<Rightarrow> Some st) = Some [7]
   \<and> map_option yg_context
        (case yoga_set_measure (YogaNodeHandle 1) 0
                (projr (yoga_set_measure (YogaNodeHandle 1) 7 one_node)) of
           Inl e \<Rightarrow> None | Inr st \<Rightarrow> nodes st 1) = Some None"
  using clear_measure_is_set_measure_zero [of "YogaNodeHandle 1"
      "projr (yoga_set_measure (YogaNodeHandle 1) 7 one_node)"
      "YGNodeNew\<lparr>yg_context := Some (MeasureContext 7), yg_has_measure_func := True\<rparr>"]
  by (simp add: set_measure_live [of "YogaNodeHandle 1" one_node YGNodeNew 7]
      from_handle_def one_node_nodes one_node_drop_calls YGNodeNew_def)

subsection \<open>Child lists\<close>







subsection \<open>Release of measurement ids\<close>




end
